theory Spec2Isabelle
  imports Complex_Main
begin

section \<open>Shared data model\<close>

text \<open>
  Both components (\<^verbatim>\<open>FaceScan\<close> and \<^verbatim>\<open>VoiceAnalysis\<close>) are React function components.
  A handler is modelled by the list of actions it performs, in program order, as a function
  of what it reads: the constants bound by the render that created it, the refs at the moment
  it runs, and the values supplied by the host (detector output, device permission, numbers
  returned by \<^verbatim>\<open>Math.random()\<close>). Performing the actions on a component state gives the
  state afterwards.

  JavaScript numbers are doubles. A number is modelled by the real it denotes, and every
  arithmetic operation of the source (\<^verbatim>\<open>+\<close>, \<^verbatim>\<open>-\<close>, \<^verbatim>\<open>*\<close>, \<^verbatim>\<open>/\<close>) by the exact operation
  followed by \<open>fl\<close>, the host's rounding of a real to the nearest double, which the handlers
  take as a parameter. The theorems use of \<open>fl\<close> only that it is monotone and leaves the
  integers up to \<open>2 ^ 53\<close> unchanged. \<^verbatim>\<open>Math.round\<close> is exact on a double and rounds half
  up. A decimal literal is modelled by the real it denotes, and so is a comparison with it:
  no double lies between \<open>0.7\<close> or \<open>0.35\<close> and the double of the literal.
\<close>

datatype health_status = Healthy | NeedsConsultation | HighRisk

text \<open>\<^verbatim>\<open>HealthStatus\<close> and \<^verbatim>\<open>VoiceHealthStatus\<close> admit \<^verbatim>\<open>null\<close>: the field is an option.\<close>

record analysis_result =
  status :: "health_status option"
  confidence :: int
  details :: "string list"
  recommendations :: "string list"

record voice_metrics =
  pitch :: int
  volume :: int
  duration :: nat
  clarity :: int

record voice_analysis_result = analysis_result +
  metrics :: voice_metrics

definition Math_round :: "real \<Rightarrow> int" where
  "Math_round x = \<lfloor>x + 1 / 2\<rfloor>"

text \<open>The state variables that both components declare with \<^verbatim>\<open>useState\<close>.\<close>

record 'r component_state =
  isAnalyzing :: bool
  analysisResult :: "'r option"
  error :: "string option"

section \<open>VoiceAnalysis\<close>

text \<open>
  The recorder created by \<^verbatim>\<open>startRecording\<close> keeps the stream's tracks and its
  \<^verbatim>\<open>onstop\<close> handler. That handler calls the \<^verbatim>\<open>analyzeVoice\<close> of the render in which
  \<^verbatim>\<open>startRecording\<close> was created, so all it captures is that render's \<^verbatim>\<open>recordingTime\<close>.
\<close>

record media_recorder =
  stream_tracks :: "nat list"
  onstop_recordingTime :: nat

datatype audio_context = AudioContext

record analyser_node =
  fftSize :: nat

record voice_state = "voice_analysis_result component_state" +
  isRecording :: bool
  recordingTime :: nat
  audioLevel :: real
  mediaRecorderRef :: "media_recorder option"
  audioContextRef :: "audio_context option"
  analyserRef :: "analyser_node option"
  audioChunksRef :: "nat list"
  animationFrameRef :: "nat option"
  timerRef :: "nat option"

datatype voice_action =
    SetIsRecording bool
  | SetIsAnalyzing bool
  | SetAnalysisResult "voice_analysis_result option"
  | SetError "string option"
  | SetRecordingTime nat
  | SetAudioLevel real
  | SetMediaRecorderRef "media_recorder option"
  | SetAudioContextRef "audio_context option"
  | SetAnalyserRef "analyser_node option"
  | SetAudioChunksRef "nat list"
  | SetAnimationFrameRef "nat option"
  | SetTimerRef "nat option"
  | Timeout nat
  | GetUserMedia
  | RecorderStart
  | RecorderStop
  | TrackStop nat
  | SetInterval nat nat
  | ClearInterval nat
  | GetByteFrequencyData
  | RequestAnimationFrame nat
  | CancelAnimationFrame nat
  | CloseAudioContext

fun perform :: "voice_action \<Rightarrow> voice_state \<Rightarrow> voice_state" where
  "perform (SetIsRecording b) s = s\<lparr>isRecording := b\<rparr>"
| "perform (SetIsAnalyzing b) s = s\<lparr>isAnalyzing := b\<rparr>"
| "perform (SetAnalysisResult r) s = s\<lparr>analysisResult := r\<rparr>"
| "perform (SetError e) s = s\<lparr>error := e\<rparr>"
| "perform (SetRecordingTime n) s = s\<lparr>recordingTime := n\<rparr>"
| "perform (SetAudioLevel x) s = s\<lparr>audioLevel := x\<rparr>"
| "perform (SetMediaRecorderRef r) s = s\<lparr>mediaRecorderRef := r\<rparr>"
| "perform (SetAudioContextRef r) s = s\<lparr>audioContextRef := r\<rparr>"
| "perform (SetAnalyserRef r) s = s\<lparr>analyserRef := r\<rparr>"
| "perform (SetAudioChunksRef r) s = s\<lparr>audioChunksRef := r\<rparr>"
| "perform (SetAnimationFrameRef r) s = s\<lparr>animationFrameRef := r\<rparr>"
| "perform (SetTimerRef r) s = s\<lparr>timerRef := r\<rparr>"
| "perform _ s = s"

fun run :: "voice_action list \<Rightarrow> voice_state \<Rightarrow> voice_state" where
  "run [] s = s"
| "run (a # as) s = run as (perform a s)"

text \<open>The state after mounting: the arguments of \<^verbatim>\<open>useState\<close> and \<^verbatim>\<open>useRef\<close>.\<close>

definition voice_initial :: voice_state where
  "voice_initial =
     \<lparr>isAnalyzing = False, analysisResult = None, error = None,
      isRecording = False, recordingTime = 0, audioLevel = 0,
      mediaRecorderRef = None, audioContextRef = None, analyserRef = None,
      audioChunksRef = [], animationFrameRef = None, timerRef = None\<rparr>"

text \<open>
  \<^verbatim>\<open>analyzeVoice\<close> reads the \<^verbatim>\<open>recordingTime\<close> of its render and calls
  \<^verbatim>\<open>Math.random()\<close> five times; \<open>random i\<close> is the value returned by call number \<open>i\<close>
  (pitch, volume, clarity, randomFactor, confidence).
\<close>

definition analyzeVoice :: "(real \<Rightarrow> real) \<Rightarrow> nat \<Rightarrow> (nat \<Rightarrow> real) \<Rightarrow> voice_action list" where
  "analyzeVoice fl recordingTime' random =
     [SetIsAnalyzing True, SetError None, Timeout 2000] @
     (if recordingTime' < 3 then
        [SetError (Some ''Recording too short. Please speak for at least 3 seconds.''),
         SetIsAnalyzing False,
         SetRecordingTime 0]
      else
        let mockPitch = fl (100 + fl (random 0 * 100));
            mockVolume = fl (50 + fl (random 1 * 40));
            mockClarity = fl (70 + fl (random 2 * 25));
            randomFactor = random 3;
            (status', confidence', details', recommendations') =
              (if randomFactor > 7 / 10 then
                 (Healthy, fl (75 + fl (random 4 * 20)),
                  [''Voice pitch within normal range'',
                   ''Clear pronunciation detected'',
                   ''No irregular breathing patterns'',
                   ''Normal speech tempo'',
                   ''No signs of voice strain or hoarseness''],
                  [''Voice characteristics appear normal'',
                   ''Continue maintaining good vocal health'',
                   ''Stay hydrated and avoid excessive strain'',
                   ''Regular health checkups recommended''])
               else if randomFactor > 35 / 100 then
                 (NeedsConsultation, fl (60 + fl (random 4 * 15)),
                  [''Minor voice irregularities detected'',
                   ''Slight hoarseness or strain observed'',
                   ''Irregular breathing pattern noticed'',
                   ''Voice pitch variation detected'',
                   ''Possible signs of fatigue or stress''],
                  [''Schedule a consultation with a healthcare provider'',
                   ''Consider ENT specialist evaluation'',
                   ''Monitor for persistent voice changes'',
                   ''Rest your voice and stay hydrated'',
                   ''Avoid shouting or excessive talking''])
               else
                 (HighRisk, fl (55 + fl (random 4 * 10)),
                  [''Significant voice abnormalities detected'',
                   ''Severe hoarseness or strain present'',
                   ''Irregular breathing patterns observed'',
                   ''Multiple risk indicators identified'',
                   ''Possible respiratory concerns''],
                  [''Consult a healthcare professional immediately'',
                   ''Schedule ENT and respiratory evaluation'',
                   ''Document any additional symptoms'',
                   ''Avoid straining your voice'',
                   ''Seek medical attention without delay'']))
        in [SetAnalysisResult (Some
              \<lparr>status = Some status',
               confidence = Math_round confidence',
               details = details',
               recommendations = recommendations',
               metrics = \<lparr>pitch = Math_round mockPitch,
                          volume = Math_round mockVolume,
                          duration = recordingTime',
                          clarity = Math_round mockClarity\<rparr>\<rparr>),
            SetIsAnalyzing False,
            SetRecordingTime 0])"

text \<open>
  \<^verbatim>\<open>updateLevel\<close> is the frame callback built by \<^verbatim>\<open>monitorAudioLevel\<close>. Its guard reads
  the \<^verbatim>\<open>isRecording\<close> bound by the render that created it. \<open>data\<close> is the content of
  \<^verbatim>\<open>dataArray\<close> after \<^verbatim>\<open>getByteFrequencyData\<close>, \<open>frameId\<close> the handle returned by
  \<^verbatim>\<open>requestAnimationFrame\<close>. \<^verbatim>\<open>reduce\<close> without an initial value raises on an empty array,
  which ends the callback.
\<close>

definition updateLevel ::
  "(real \<Rightarrow> real) \<Rightarrow> bool \<Rightarrow> nat list \<Rightarrow> nat \<Rightarrow> voice_state \<Rightarrow> voice_action list" where
  "updateLevel fl isRecording' data frameId s =
     (if analyserRef s = None \<or> \<not> isRecording' then []
      else if data = [] then [GetByteFrequencyData]
      else
        let average = fl (real (sum_list data) / real (length data))
        in [GetByteFrequencyData,
            SetAudioLevel (min 100 (fl (fl (average / 255) * 100))),
            RequestAnimationFrame frameId,
            SetAnimationFrameRef (Some frameId)])"

definition monitorAudioLevel ::
  "(real \<Rightarrow> real) \<Rightarrow> bool \<Rightarrow> nat list \<Rightarrow> nat \<Rightarrow> voice_state \<Rightarrow> voice_action list" where
  "monitorAudioLevel fl isRecording' data frameId s =
     (if analyserRef s = None then [] else updateLevel fl isRecording' data frameId s)"

text \<open>\<^verbatim>\<open>getUserMedia\<close> resolves with a stream (its tracks) or rejects.\<close>

datatype media_access = Granted "nat list" | Denied

text \<open>
  \<^verbatim>\<open>startRecording\<close> belongs to a render with constants \<open>isRecording'\<close> and
  \<open>recordingTime'\<close>: the \<^verbatim>\<open>onstop\<close> handler it installs and the \<^verbatim>\<open>monitorAudioLevel\<close>
  it calls are those of that render. \<open>timerId\<close> is the handle returned by \<^verbatim>\<open>setInterval\<close>.
\<close>

definition startRecording ::
  "(real \<Rightarrow> real) \<Rightarrow> bool \<Rightarrow> nat \<Rightarrow> media_access \<Rightarrow> nat \<Rightarrow> nat list \<Rightarrow> nat \<Rightarrow> voice_state \<Rightarrow> voice_action list" where
  "startRecording fl isRecording' recordingTime' access timerId data frameId s =
     [SetError None, SetRecordingTime 0, SetAudioChunksRef [], GetUserMedia] @
     (case access of
        Denied \<Rightarrow> [SetError (Some ''Could not access microphone. Please check permissions.'')]
      | Granted tracks \<Rightarrow>
          let setup =
                [SetAudioContextRef (Some AudioContext),
                 SetAnalyserRef (Some \<lparr>fftSize = 256\<rparr>),
                 SetMediaRecorderRef
                   (Some \<lparr>stream_tracks = tracks, onstop_recordingTime = recordingTime'\<rparr>),
                 RecorderStart,
                 SetIsRecording True,
                 SetInterval timerId 1000,
                 SetTimerRef (Some timerId)]
          in setup @
             monitorAudioLevel fl isRecording' data frameId
               (run ([SetError None, SetRecordingTime 0, SetAudioChunksRef [], GetUserMedia] @ setup) s))"

text \<open>The interval callback: \<^verbatim>\<open>setRecordingTime(prev => prev + 1)\<close>.\<close>

definition timerTick :: "voice_state \<Rightarrow> voice_action list" where
  "timerTick s = [SetRecordingTime (recordingTime s + 1)]"

text \<open>A handle stored in a ref passes \<^verbatim>\<open>if (ref.current)\<close> when it is neither null nor 0.\<close>

definition truthy :: "nat option \<Rightarrow> bool" where
  "truthy r = (case r of None \<Rightarrow> False | Some n \<Rightarrow> n \<noteq> 0)"

definition stopRecording :: "bool \<Rightarrow> voice_state \<Rightarrow> voice_action list" where
  "stopRecording isRecording' s =
     (if mediaRecorderRef s \<noteq> None \<and> isRecording' then
        [RecorderStop, SetIsRecording False] @
        (if truthy (timerRef s) then [ClearInterval (the (timerRef s)), SetTimerRef None] else []) @
        (if truthy (animationFrameRef s)
         then [CancelAnimationFrame (the (animationFrameRef s)), SetAnimationFrameRef None] else []) @
        (if audioContextRef s \<noteq> None then [CloseAudioContext, SetAudioContextRef None] else [])
      else [])"

text \<open>The recorder's \<^verbatim>\<open>onstop\<close> handler, installed by \<^verbatim>\<open>startRecording\<close>.\<close>

definition onstop :: "(real \<Rightarrow> real) \<Rightarrow> media_recorder \<Rightarrow> (nat \<Rightarrow> real) \<Rightarrow> voice_action list" where
  "onstop fl recorder random =
     map TrackStop (stream_tracks recorder) @ analyzeVoice fl (onstop_recordingTime recorder) random"

definition VoiceAnalysis_resetAnalysis :: "voice_action list" where
  "VoiceAnalysis_resetAnalysis =
     [SetAnalysisResult None, SetError None, SetRecordingTime 0, SetAudioLevel 0]"

subsection \<open>Events of a mounted VoiceAnalysis\<close>

text \<open>
  React calls the component function again after every state change, and each call binds
  fresh constants \<^verbatim>\<open>isRecording\<close>, \<^verbatim>\<open>recordingTime\<close>, ... and builds fresh handlers. The
  buttons carry the handlers of the latest render, whose constants are the current state.
  The JSX shows the start button when there is no result and \<^verbatim>\<open>isRecording\<close> is false
  (disabled while \<^verbatim>\<open>isAnalyzing\<close>), and the stop button when \<^verbatim>\<open>isRecording\<close> is true.
\<close>

definition clickStart ::
  "(real \<Rightarrow> real) \<Rightarrow> media_access \<Rightarrow> nat \<Rightarrow> nat list \<Rightarrow> nat \<Rightarrow> voice_state \<Rightarrow> voice_action list" where
  "clickStart fl access timerId data frameId s =
     (if analysisResult s = None \<and> \<not> isRecording s \<and> \<not> isAnalyzing s
      then startRecording fl (isRecording s) (recordingTime s) access timerId data frameId s
      else [])"

definition clickStop :: "voice_state \<Rightarrow> voice_action list" where
  "clickStop s =
     (if analysisResult s = None \<and> isRecording s then stopRecording (isRecording s) s else [])"

text \<open>\<open>n\<close> firings of the one-second interval.\<close>

fun seconds :: "nat \<Rightarrow> voice_state \<Rightarrow> voice_state" where
  "seconds 0 s = s"
| "seconds (Suc n) s = seconds n (run (timerTick s) s)"

text \<open>The \<^verbatim>\<open>stop\<close> event of the recorder held by \<^verbatim>\<open>mediaRecorderRef\<close>.\<close>

definition stopEvent :: "(real \<Rightarrow> real) \<Rightarrow> (nat \<Rightarrow> real) \<Rightarrow> voice_state \<Rightarrow> voice_action list" where
  "stopEvent fl random s =
     (case mediaRecorderRef s of None \<Rightarrow> [] | Some recorder \<Rightarrow> onstop fl recorder random)"

text \<open>
  One recording on a freshly mounted component: start (permission granted), \<open>n\<close> seconds,
  stop, the recorder's stop event and the analysis it starts.
\<close>

definition recordFor ::
  "(real \<Rightarrow> real) \<Rightarrow> nat \<Rightarrow> nat list \<Rightarrow> nat \<Rightarrow> nat list \<Rightarrow> nat \<Rightarrow> (nat \<Rightarrow> real) \<Rightarrow> voice_state" where
  "recordFor fl n tracks timerId data frameId random =
     (let s1 = run (clickStart fl (Granted tracks) timerId data frameId voice_initial) voice_initial;
          s2 = seconds n s1;
          s3 = run (clickStop s2) s2
      in run (stopEvent fl random s3) s3)"

text \<open>
  An asynchronous handler runs up to its \<^verbatim>\<open>await\<close> of the timeout and resumes when the
  timeout fires; other events may run in between.
\<close>

fun untilTimeout :: "voice_action list \<Rightarrow> voice_action list" where
  "untilTimeout [] = []"
| "untilTimeout (Timeout ms # as) = [Timeout ms]"
| "untilTimeout (a # as) = a # untilTimeout as"

fun afterTimeout :: "voice_action list \<Rightarrow> voice_action list" where
  "afterTimeout [] = []"
| "afterTimeout (Timeout ms # as) = as"
| "afterTimeout (a # as) = afterTimeout as"

text \<open>
  Two recordings on a freshly mounted component, the second started before the stop event of
  the first recorder is delivered: start, \<open>m\<close> seconds, stop, start again (the start button
  is shown and enabled, since \<^verbatim>\<open>isRecording\<close> is false and the analysis has not begun), the
  first recorder's stop event up to the timeout, \<open>n\<close> seconds, the rest of the first analysis,
  stop, the second recorder's stop event and its analysis.
\<close>

definition restartInWindow ::
  "(real \<Rightarrow> real) \<Rightarrow> nat \<Rightarrow> nat \<Rightarrow> nat list \<Rightarrow> nat \<Rightarrow> nat list \<Rightarrow> nat \<Rightarrow>
   (nat \<Rightarrow> real) \<Rightarrow> (nat \<Rightarrow> real) \<Rightarrow> voice_state" where
  "restartInWindow fl m n tracks timerId data frameId random random' =
     (let s1 = run (clickStart fl (Granted tracks) timerId data frameId voice_initial) voice_initial;
          s2 = seconds m s1;
          s3 = run (clickStop s2) s2;
          first = stopEvent fl random s3;
          s4 = run (clickStart fl (Granted tracks) timerId data frameId s3) s3;
          s5 = run (untilTimeout first) s4;
          s6 = seconds n s5;
          s7 = run (afterTimeout first) s6;
          s8 = run (clickStop s7) s7
      in run (stopEvent fl random' s8) s8)"

section \<open>FaceScan\<close>

text \<open>
  A face returned by \<^verbatim>\<open>estimateFaces\<close>. The handlers take \<^verbatim>\<open>predictions: any[]\<close>, so
  \<^verbatim>\<open>probability\<close> may be missing.
\<close>

record prediction =
  topLeft :: "real \<times> real"
  bottomRight :: "real \<times> real"
  probability :: "real option"

datatype blazeface = BlazeFaceModel

datatype image_source = VideoFrame | UploadedImage

datatype drawing =
    Bitmap image_source
  | Box string real real real real real
  | Cleared nat nat nat nat

text \<open>
  The canvas: its size, whether \<^verbatim>\<open>getContext('2d')\<close> yields a context, the context's stroke
  settings, and what has been drawn since the bitmap was last blank.
\<close>

record canvas =
  width :: nat
  height :: nat
  context2d :: bool
  strokeStyle :: string
  lineWidth :: real
  drawn :: "drawing list"

record video =
  srcObject :: "nat list option"
  videoWidth :: nat
  videoHeight :: nat

record face_state = "analysis_result component_state" +
  isModelLoading :: bool
  model :: "blazeface option"
  isCameraActive :: bool
  videoRef :: "video option"
  canvasRef :: "canvas option"
  streamRef :: "nat list option"

datatype face_action =
    Face_SetIsAnalyzing bool
  | Face_SetAnalysisResult "analysis_result option"
  | Face_SetError "string option"
  | SetIsCameraActive bool
  | SetStreamRef "nat list option"
  | SetVideoSrcObject "nat list option"
  | SetCanvasWidth nat
  | SetCanvasHeight nat
  | DrawImage image_source
  | SetStrokeStyle string
  | SetLineWidth real
  | StrokeRect real real real real
  | ClearRect nat nat nat nat
  | EstimateFaces
  | Face_Timeout nat
  | Face_GetUserMedia
  | Face_TrackStop nat
  | CreateObjectURL
  | RevokeObjectURL

definition on_canvas :: "(canvas \<Rightarrow> canvas) \<Rightarrow> face_state \<Rightarrow> face_state" where
  "on_canvas f s = s\<lparr>canvasRef := map_option f (canvasRef s)\<rparr>"

definition on_video :: "(video \<Rightarrow> video) \<Rightarrow> face_state \<Rightarrow> face_state" where
  "on_video f s = s\<lparr>videoRef := map_option f (videoRef s)\<rparr>"

text \<open>
  Assigning a canvas dimension blanks the bitmap; \<^verbatim>\<open>clearRect\<close> blanks the rectangle it is
  given, the whole bitmap when the rectangle covers it. The actions of a handler leave
  \<^verbatim>\<open>videoRef\<close> as it is: React attaches and detaches the video element when it commits the
  next render (\<open>render_face\<close> below), after the handler's synchronous steps.
\<close>

fun perform_face :: "face_action \<Rightarrow> face_state \<Rightarrow> face_state" where
  "perform_face (Face_SetIsAnalyzing b) s = s\<lparr>isAnalyzing := b\<rparr>"
| "perform_face (Face_SetAnalysisResult r) s = s\<lparr>analysisResult := r\<rparr>"
| "perform_face (Face_SetError e) s = s\<lparr>error := e\<rparr>"
| "perform_face (SetIsCameraActive b) s = s\<lparr>isCameraActive := b\<rparr>"
| "perform_face (SetStreamRef r) s = s\<lparr>streamRef := r\<rparr>"
| "perform_face (SetVideoSrcObject r) s = on_video (\<lambda>v. v\<lparr>srcObject := r\<rparr>) s"
| "perform_face (SetCanvasWidth w) s = on_canvas (\<lambda>c. c\<lparr>width := w, drawn := []\<rparr>) s"
| "perform_face (SetCanvasHeight h) s = on_canvas (\<lambda>c. c\<lparr>height := h, drawn := []\<rparr>) s"
| "perform_face (DrawImage src) s = on_canvas (\<lambda>c. c\<lparr>drawn := drawn c @ [Bitmap src]\<rparr>) s"
| "perform_face (SetStrokeStyle st) s = on_canvas (\<lambda>c. c\<lparr>strokeStyle := st\<rparr>) s"
| "perform_face (SetLineWidth w) s = on_canvas (\<lambda>c. c\<lparr>lineWidth := w\<rparr>) s"
| "perform_face (StrokeRect x y w h) s =
     on_canvas (\<lambda>c. c\<lparr>drawn := drawn c @ [Box (strokeStyle c) (lineWidth c) x y w h]\<rparr>) s"
| "perform_face (ClearRect x y w h) s =
     on_canvas (\<lambda>c. if x = 0 \<and> y = 0 \<and> width c \<le> w \<and> height c \<le> h
                     then c\<lparr>drawn := []\<rparr>
                     else c\<lparr>drawn := drawn c @ [Cleared x y w h]\<rparr>) s"
| "perform_face _ s = s"

fun run_face :: "face_action list \<Rightarrow> face_state \<Rightarrow> face_state" where
  "run_face [] s = s"
| "run_face (a # as) s = run_face as (perform_face a s)"

text \<open>\<open>first\<close>, then the actions that \<open>rest\<close> computes from the state \<open>first\<close> leaves.\<close>

definition andThen ::
  "face_action list \<Rightarrow> (face_state \<Rightarrow> face_action list) \<Rightarrow> face_state \<Rightarrow> face_action list" where
  "andThen first rest s = first @ rest (run_face first s)"

text \<open>
  The state after mounting. The canvas element is always rendered, the video element only
  while \<^verbatim>\<open>isCameraActive\<close>; a new canvas is 300 by 150, blank, with a black one-pixel stroke.
\<close>

definition face_initial :: face_state where
  "face_initial =
     \<lparr>isAnalyzing = False, analysisResult = None, error = None,
      isModelLoading = True, model = None, isCameraActive = False,
      videoRef = None,
      canvasRef = Some \<lparr>width = 300, height = 150, context2d = True,
                        strokeStyle = ''#000000'', lineWidth = 1, drawn = []\<rparr>,
      streamRef = None\<rparr>"

definition startCamera :: "media_access \<Rightarrow> face_state \<Rightarrow> face_action list" where
  "startCamera access s =
     [Face_SetError None, Face_GetUserMedia] @
     (case access of
        Denied \<Rightarrow> [Face_SetError (Some ''Could not access camera. Please check permissions.'')]
      | Granted stream \<Rightarrow>
          (if videoRef s \<noteq> None
           then [SetVideoSrcObject (Some stream), SetStreamRef (Some stream), SetIsCameraActive True]
           else []))"

definition stopCamera :: "face_state \<Rightarrow> face_action list" where
  "stopCamera s =
     (case streamRef s of
        None \<Rightarrow> []
      | Some stream \<Rightarrow> map Face_TrackStop stream @ [SetStreamRef None]) @
     (if videoRef s \<noteq> None then [SetVideoSrcObject None] else []) @
     [SetIsCameraActive False]"

text \<open>The value bound to \<^verbatim>\<open>confidence\<close> in \<^verbatim>\<open>analyzeHealth\<close>:
  \<^verbatim>\<open>predictions[0]?.probability || 0.95\<close>. Among numbers, \<^verbatim>\<open>||\<close> replaces 0.\<close>

definition detectionConfidence :: "prediction list \<Rightarrow> real" where
  "detectionConfidence predictions =
     (case predictions of
        [] \<Rightarrow> 95 / 100
      | p # _ \<Rightarrow>
          (case probability p of
             None \<Rightarrow> 95 / 100
           | Some x \<Rightarrow> if x = 0 then 95 / 100 else x))"

text \<open>\<^verbatim>\<open>analyzeHealth\<close> calls \<^verbatim>\<open>Math.random()\<close> twice: randomFactor, then the confidence.\<close>

definition analyzeHealth ::
  "(real \<Rightarrow> real) \<Rightarrow> prediction list \<Rightarrow> (nat \<Rightarrow> real) \<Rightarrow> face_action list" where
  "analyzeHealth fl predictions random =
     [Face_Timeout 2000] @
     (let faceCount = length predictions;
          confidence' = detectionConfidence predictions;
          randomFactor = random 0;
          (status', finalConfidence, details', recommendations') =
            (if randomFactor > 7 / 10 then
               (Healthy, fl (75 + fl (random 1 * 20)),
                [''Normal facial symmetry detected'',
                 ''Skin tone analysis: Within normal range'',
                 ''Eye analysis: No visible abnormalities'',
                 ''Facial temperature estimation: Normal''],
                [''Continue maintaining good health habits'',
                 ''Regular health checkups recommended'',
                 ''Stay hydrated and get adequate sleep''])
             else if randomFactor > 35 / 100 then
               (NeedsConsultation, fl (60 + fl (random 1 * 15)),
                [''Minor facial asymmetry detected'',
                 ''Skin tone variation observed'',
                 ''Eye fatigue indicators present'',
                 ''Possible signs of stress or fatigue''],
                [''Schedule a consultation with a healthcare provider'',
                 ''Monitor for any changes in symptoms'',
                 ''Ensure adequate rest and stress management'',
                 ''Consider a comprehensive health screening''])
             else
               (HighRisk, fl (55 + fl (random 1 * 10)),
                [''Significant facial irregularities detected'',
                 ''Abnormal skin tone patterns observed'',
                 ''Multiple risk indicators present'',
                 ''Immediate medical attention may be needed''],
                [''Consult a healthcare professional immediately'',
                 ''Schedule comprehensive medical examination'',
                 ''Document any recent symptoms or changes'',
                 ''Do not delay seeking medical advice'']))
      in [Face_SetAnalysisResult (Some
            \<lparr>status = Some status',
             confidence = Math_round finalConfidence,
             details = details',
             recommendations = recommendations'\<rparr>)])"

text \<open>The body of the \<^verbatim>\<open>forEach\<close> that both entry points run over the predictions.\<close>

definition drawDetectionBox :: "(real \<Rightarrow> real) \<Rightarrow> prediction \<Rightarrow> face_action list" where
  "drawDetectionBox fl p =
     (let start = topLeft p; end' = bottomRight p;
          size' = (fl (fst end' - fst start), fl (snd end' - snd start))
      in [SetStrokeStyle ''#10b981'', SetLineWidth 3,
          StrokeRect (fst start) (snd start) (fst size') (snd size')])"

text \<open>\<^verbatim>\<open>estimateFaces\<close> resolves with a list of faces or rejects.\<close>

datatype detection = Faces "prediction list" | Throws

definition captureAndAnalyze ::
  "(real \<Rightarrow> real) \<Rightarrow> detection \<Rightarrow> (nat \<Rightarrow> real) \<Rightarrow> face_state \<Rightarrow> face_action list" where
  "captureAndAnalyze fl detected random s =
     (case (videoRef s, canvasRef s, model s) of
        (Some video', Some canvas', Some model') \<Rightarrow>
          let begin =
                [Face_SetIsAnalyzing True, Face_SetError None,
                 SetCanvasWidth (videoWidth video'), SetCanvasHeight (videoHeight video')];
              snapshot = [DrawImage VideoFrame, EstimateFaces]
          in
            if \<not> context2d canvas' then begin
            else
              (case detected of
                 Throws \<Rightarrow>
                   begin @ snapshot @
                   [Face_SetError (Some ''Analysis failed. Please try again.''),
                    Face_SetIsAnalyzing False]
               | Faces predictions \<Rightarrow>
                   if length predictions = 0 then
                     begin @ snapshot @
                     [Face_SetError
                        (Some ''No face detected. Please ensure your face is clearly visible.''),
                      Face_SetIsAnalyzing False]
                   else
                     andThen
                       (begin @ snapshot @
                        concat (map (drawDetectionBox fl) predictions) @
                        analyzeHealth fl predictions random)
                       stopCamera s @
                     [Face_SetIsAnalyzing False])
      | _ \<Rightarrow> [])"

text \<open>
  The file chosen in the input: none, one that does not decode (\<^verbatim>\<open>onload\<close> never fires), or
  an image of the given width and height.
\<close>

datatype upload = NoFile | Undecodable | Picture nat nat

definition handleFileUpload ::
  "(real \<Rightarrow> real) \<Rightarrow> upload \<Rightarrow> detection \<Rightarrow> (nat \<Rightarrow> real) \<Rightarrow> face_state \<Rightarrow> face_action list" where
  "handleFileUpload fl file detected random s =
     (case (file, canvasRef s, model s) of
        (Picture w h, Some canvas', Some model') \<Rightarrow>
          [Face_SetIsAnalyzing True, Face_SetError None, CreateObjectURL,
           SetCanvasWidth w, SetCanvasHeight h] @
          (if \<not> context2d canvas' then []
           else
             [DrawImage UploadedImage, EstimateFaces] @
             (case detected of
                Throws \<Rightarrow>
                  [Face_SetError (Some ''Analysis failed. Please try again.''),
                   Face_SetIsAnalyzing False, RevokeObjectURL]
              | Faces predictions \<Rightarrow>
                  if length predictions = 0 then
                    [Face_SetError
                       (Some ''No face detected in the image. Please upload a clear face photo.''),
                     Face_SetIsAnalyzing False]
                  else
                    concat (map (drawDetectionBox fl) predictions) @ analyzeHealth fl predictions random @
                    [Face_SetIsAnalyzing False, RevokeObjectURL]))
      | (Undecodable, Some canvas', Some model') \<Rightarrow>
          [Face_SetIsAnalyzing True, Face_SetError None, CreateObjectURL]
      | _ \<Rightarrow> [])"

definition FaceScan_resetAnalysis :: "face_state \<Rightarrow> face_action list" where
  "FaceScan_resetAnalysis s =
     [Face_SetAnalysisResult None, Face_SetError None] @
     (case canvasRef s of
        None \<Rightarrow> []
      | Some canvas' \<Rightarrow>
          if context2d canvas' then [ClearRect 0 0 (width canvas') (height canvas')] else [])"

text \<open>The JSX renders the capture button when there is no result and the camera is active,
  and disables it while \<^verbatim>\<open>isAnalyzing\<close>.\<close>

definition captureEnabled :: "face_state \<Rightarrow> bool" where
  "captureEnabled s \<longleftrightarrow> analysisResult s = None \<and> isCameraActive s \<and> \<not> isAnalyzing s"

text \<open>
  A state setter does not touch \<^verbatim>\<open>videoRef\<close>; the next render does. The JSX renders the
  video element only while there is no result and \<^verbatim>\<open>isCameraActive\<close> is true: committing
  a render attaches a new element to the ref when the element appears and sets the ref to
  null when it disappears.
\<close>

definition render_face :: "face_state \<Rightarrow> face_state" where
  "render_face s =
     (if analysisResult s = None \<and> isCameraActive s then
        (case videoRef s of
           None \<Rightarrow> s\<lparr>videoRef := Some \<lparr>srcObject = None, videoWidth = 0, videoHeight = 0\<rparr>\<rparr>
         | Some _ \<Rightarrow> s)
      else s\<lparr>videoRef := None\<rparr>)"

section \<open>Observations, the narrative catalog and sample inputs\<close>

text \<open>The result that a handler publishes on a freshly mounted component, if any.\<close>

definition produced :: "voice_action list \<Rightarrow> voice_analysis_result option" where
  "produced as = analysisResult (run as voice_initial)"

definition produced_face :: "face_action list \<Rightarrow> analysis_result option" where
  "produced_face as = analysisResult (run_face as face_initial)"

text \<open>
  A sample rounding: to the nearest multiple of \<open>2 ^ - 47\<close>, the spacing of the doubles between
  32 and 64.
\<close>

definition nearest47 :: "real \<Rightarrow> real" where
  "nearest47 x = of_int \<lfloor>x * 2 ^ 47 + 1 / 2\<rfloor> / 2 ^ 47"

text \<open>
  Sample draws: a random factor of 0.2, then the double \<open>225179981368524 / 2 ^ 52\<close> for the
  confidence.
\<close>

definition sample_draws :: "nat \<Rightarrow> real" where
  "sample_draws i = (if i = 0 then 1 / 5 else 225179981368524 / 4503599627370496)"

text \<open>A randomness source pinned to one value: every call of \<^verbatim>\<open>Math.random()\<close> returns \<open>r\<close>.\<close>

definition pinned :: "real \<Rightarrow> nat \<Rightarrow> real" where
  "pinned r i = r"

text \<open>
  The narrative text as a lookup table keyed by mode and status, as the specification
  describes it; the strings are the literals of \<^verbatim>\<open>analyzeHealth\<close> and \<^verbatim>\<open>analyzeVoice\<close>.
\<close>

datatype mode = Face | Voice

fun catalog_details :: "mode \<Rightarrow> health_status \<Rightarrow> string list" where
  "catalog_details Voice Healthy =
     [''Voice pitch within normal range'',
      ''Clear pronunciation detected'',
      ''No irregular breathing patterns'',
      ''Normal speech tempo'',
      ''No signs of voice strain or hoarseness'']"
| "catalog_details Voice NeedsConsultation =
     [''Minor voice irregularities detected'',
      ''Slight hoarseness or strain observed'',
      ''Irregular breathing pattern noticed'',
      ''Voice pitch variation detected'',
      ''Possible signs of fatigue or stress'']"
| "catalog_details Voice HighRisk =
     [''Significant voice abnormalities detected'',
      ''Severe hoarseness or strain present'',
      ''Irregular breathing patterns observed'',
      ''Multiple risk indicators identified'',
      ''Possible respiratory concerns'']"
| "catalog_details Face Healthy =
     [''Normal facial symmetry detected'',
      ''Skin tone analysis: Within normal range'',
      ''Eye analysis: No visible abnormalities'',
      ''Facial temperature estimation: Normal'']"
| "catalog_details Face NeedsConsultation =
     [''Minor facial asymmetry detected'',
      ''Skin tone variation observed'',
      ''Eye fatigue indicators present'',
      ''Possible signs of stress or fatigue'']"
| "catalog_details Face HighRisk =
     [''Significant facial irregularities detected'',
      ''Abnormal skin tone patterns observed'',
      ''Multiple risk indicators present'',
      ''Immediate medical attention may be needed'']"

fun catalog_recommendations :: "mode \<Rightarrow> health_status \<Rightarrow> string list" where
  "catalog_recommendations Voice Healthy =
     [''Voice characteristics appear normal'',
      ''Continue maintaining good vocal health'',
      ''Stay hydrated and avoid excessive strain'',
      ''Regular health checkups recommended'']"
| "catalog_recommendations Voice NeedsConsultation =
     [''Schedule a consultation with a healthcare provider'',
      ''Consider ENT specialist evaluation'',
      ''Monitor for persistent voice changes'',
      ''Rest your voice and stay hydrated'',
      ''Avoid shouting or excessive talking'']"
| "catalog_recommendations Voice HighRisk =
     [''Consult a healthcare professional immediately'',
      ''Schedule ENT and respiratory evaluation'',
      ''Document any additional symptoms'',
      ''Avoid straining your voice'',
      ''Seek medical attention without delay'']"
| "catalog_recommendations Face Healthy =
     [''Continue maintaining good health habits'',
      ''Regular health checkups recommended'',
      ''Stay hydrated and get adequate sleep'']"
| "catalog_recommendations Face NeedsConsultation =
     [''Schedule a consultation with a healthcare provider'',
      ''Monitor for any changes in symptoms'',
      ''Ensure adequate rest and stress management'',
      ''Consider a comprehensive health screening'']"
| "catalog_recommendations Face HighRisk =
     [''Consult a healthcare professional immediately'',
      ''Schedule comprehensive medical examination'',
      ''Document any recent symptoms or changes'',
      ''Do not delay seeking medical advice'']"

text \<open>The rectangle that \<^verbatim>\<open>drawDetectionBox\<close> leaves on the canvas.\<close>

definition boxOf :: "(real \<Rightarrow> real) \<Rightarrow> prediction \<Rightarrow> drawing" where
  "boxOf fl p =
     Box ''#10b981'' 3 (fst (topLeft p)) (snd (topLeft p))
       (fl (fst (bottomRight p) - fst (topLeft p))) (fl (snd (bottomRight p) - snd (topLeft p)))"

text \<open>Sample inputs: a detected face, one with probability 0, and a FaceScan with the model
  loaded and the camera live on a stream with one track.\<close>

definition sample_face :: prediction where
  "sample_face = \<lparr>topLeft = (10, 20), bottomRight = (110, 140), probability = Some (98 / 100)\<rparr>"

definition zero_face :: prediction where
  "zero_face = \<lparr>topLeft = (10, 20), bottomRight = (110, 140), probability = Some 0\<rparr>"

definition face_live :: face_state where
  "face_live =
     \<lparr>isAnalyzing = False, analysisResult = None, error = None,
      isModelLoading = False, model = Some BlazeFaceModel, isCameraActive = True,
      videoRef = Some \<lparr>srcObject = Some [0], videoWidth = 640, videoHeight = 480\<rparr>,
      canvasRef = Some \<lparr>width = 300, height = 150, context2d = True,
                        strokeStyle = ''#000000'', lineWidth = 1, drawn = []\<rparr>,
      streamRef = Some [0]\<rparr>"

section \<open>Auxiliary facts\<close>

lemma run_append: "run (xs @ ys) s = run ys (run xs s)"
  by (induction xs arbitrary: s) simp_all

lemma run_face_append: "run_face (xs @ ys) s = run_face ys (run_face xs s)"
  by (induction xs arbitrary: s) simp_all

lemma run_TrackStop: "run (map TrackStop ts) s = s"
  by (induction ts) simp_all

lemma run_face_TrackStop: "run_face (map Face_TrackStop ts) s = s"
  by (induction ts) simp_all

lemma seconds_eq: "seconds n s = s\<lparr>recordingTime := recordingTime s + n\<rparr>"
  by (induction n arbitrary: s) (simp_all add: timerTick_def)

lemma catalog_lengths:
  "3 \<le> length (catalog_details m st) \<and> length (catalog_details m st) \<le> 5 \<and>
   3 \<le> length (catalog_recommendations m st) \<and> length (catalog_recommendations m st) \<le> 5"
  by (cases m; cases st) simp_all

lemma voice_lists:
  assumes "3 \<le> rt"
  shows "\<exists>v st. produced (analyzeVoice fl rt random) = Some v \<and> status v = Some st \<and>
           details v = catalog_details Voice st \<and>
           recommendations v = catalog_recommendations Voice st"
proof -
  consider "7 / 10 < random 3" | "35 / 100 < random 3 \<and> random 3 \<le> 7 / 10" | "random 3 \<le> 35 / 100"
    by linarith
  then show ?thesis
    using assms by cases (simp_all add: analyzeVoice_def produced_def voice_initial_def)
qed

lemma face_lists:
  "\<exists>f st. produced_face (analyzeHealth fl predictions random) = Some f \<and> status f = Some st \<and>
           details f = catalog_details Face st \<and>
           recommendations f = catalog_recommendations Face st"
proof -
  consider "7 / 10 < random 0" | "35 / 100 < random 0 \<and> random 0 \<le> 7 / 10" | "random 0 \<le> 35 / 100"
    by linarith
  then show ?thesis
    by cases (simp_all add: analyzeHealth_def produced_face_def face_initial_def)
qed

section \<open>The narrative catalog\<close>

text \<open>
  C4, as stated: every status/mode pair carries detail and recommendation lists of four to
  five lines each. The face-mode recommendations for \<^verbatim>\<open>healthy\<close> have three lines: with
  \<^verbatim>\<open>randomFactor\<close> 0.9 and one detected face, \<^verbatim>\<open>analyzeHealth\<close> publishes a result whose
  recommendation list has length 3.
\<close>

theorem catalog_four_to_five_counterexample:
  "map_option status (produced_face (analyzeHealth nearest47 [sample_face] (pinned (9 / 10)))) =
     Some (Some Healthy) \<and>
   map_option (length \<circ> recommendations)
     (produced_face (analyzeHealth nearest47 [sample_face] (pinned (9 / 10)))) = Some 3"
  by (simp add: analyzeHealth_def produced_face_def pinned_def face_initial_def)

text \<open>
  C4, amended: in each mode, every analysis that publishes a result publishes a non-null
  status together with exactly the catalog's detail list and recommendation list for that
  mode and status (the same strings in the same order, whatever the random draws, the
  detections or the recording time), and every list of the catalog has three to five lines.
  The voice analysis publishes a result when the recording time it reads is at least 3.
\<close>

theorem catalog_per_status:
  assumes "3 \<le> rt"
  shows "\<exists>v st f st'.
           produced (analyzeVoice fl rt random) = Some v \<and> status v = Some st \<and>
           details v = catalog_details Voice st \<and>
           recommendations v = catalog_recommendations Voice st \<and>
           produced_face (analyzeHealth fl predictions random') = Some f \<and> status f = Some st' \<and>
           details f = catalog_details Face st' \<and>
           recommendations f = catalog_recommendations Face st' \<and>
           (\<forall>m x. 3 \<le> length (catalog_details m x) \<and> length (catalog_details m x) \<le> 5 \<and>
                  3 \<le> length (catalog_recommendations m x) \<and>
                  length (catalog_recommendations m x) \<le> 5)"
  using voice_lists [OF assms, where fl = fl and random = random]
    face_lists [where fl = fl and predictions = predictions and random = random'] catalog_lengths
  by blast

theorem catalog_per_status_witness:
  "(3::nat) \<le> 10 \<and>
   map_option details (produced (analyzeVoice nearest47 10 (pinned (1 / 2)))) =
     Some (catalog_details Voice NeedsConsultation) \<and>
   map_option recommendations (produced_face (analyzeHealth nearest47 [sample_face] (pinned (9 / 10)))) =
     Some (catalog_recommendations Face Healthy)"
  using catalog_per_status [where rt = 10 and fl = nearest47 and random = "pinned (1 / 2)"
      and predictions = "[sample_face]" and random' = "pinned (9 / 10)"]
  by (simp add: analyzeVoice_def analyzeHealth_def produced_def produced_face_def pinned_def
      voice_initial_def face_initial_def)

section \<open>Render constants that the voice handlers keep\<close>

text \<open>
  C6 says that a recording of at least 3 seconds yields a result whose
  \<^verbatim>\<open>metrics.duration\<close> is the recorded duration (10 for a 10-second recording). The code
  reaches \<^verbatim>\<open>analyzeVoice\<close> only through the recorder's \<^verbatim>\<open>onstop\<close> handler, which
  \<^verbatim>\<open>startRecording\<close> installs; the \<^verbatim>\<open>recordingTime\<close> it compares with 3 and copies into
  the metrics is the constant of the render in which the start button was pressed, not the
  seconds counted since. On a freshly mounted component that constant is 0: a recording of
  any length \<open>n\<close> ends with the recording-too-short error and no result.
\<close>

theorem recording_never_analysed:
  "error (recordFor fl n tracks timerId data frameId random) =
     Some ''Recording too short. Please speak for at least 3 seconds.'' \<and>
   analysisResult (recordFor fl n tracks timerId data frameId random) = None \<and>
   recordingTime (recordFor fl n tracks timerId data frameId random) = 0"
  by (simp add: recordFor_def clickStart_def clickStop_def startRecording_def stopRecording_def
      monitorAudioLevel_def updateLevel_def stopEvent_def onstop_def analyzeVoice_def seconds_eq
      voice_initial_def truthy_def run_append run_TrackStop Let_def)

text \<open>
  C5 says that the monitor loop samples the analyser on every frame while a recording is
  active. The guard of \<^verbatim>\<open>updateLevel\<close> reads the \<^verbatim>\<open>isRecording\<close> of the render in which
  the start button was pressed, and the start button exists only while that is false: the
  first call returns before \<^verbatim>\<open>getByteFrequencyData\<close>, publishes nothing and requests no
  frame. After a granted start the component is recording, the level is still 0 and no
  frame callback is pending.
\<close>

theorem monitor_never_samples:
  "updateLevel fl False data frameId s = [] \<and>
   GetByteFrequencyData \<notin> set (clickStart fl access timerId data frameId s) \<and>
   (let s' = run (clickStart fl (Granted tracks) timerId data frameId voice_initial) voice_initial
    in isRecording s' \<and> audioLevel s' = 0 \<and> animationFrameRef s' = None)"
  by (cases access)
     (simp_all add: updateLevel_def clickStart_def startRecording_def monitorAudioLevel_def
      voice_initial_def Let_def)

section \<open>The classifier\<close>

lemma rounded_bounds:
  assumes mono: "\<forall>x y. x \<le> y \<longrightarrow> fl x \<le> fl y"
      and ints: "\<forall>k::int. \<bar>k\<bar> \<le> 2 ^ 53 \<longrightarrow> fl (of_int k) = of_int k"
      and u: "0 \<le> u" "u < 1"
      and w: "0 \<le> w" "w \<le> 2 ^ 53"
      and lo: "\<bar>lo\<bar> \<le> 2 ^ 53" "\<bar>lo + w\<bar> \<le> 2 ^ 53"
  shows "lo \<le> Math_round (fl (of_int lo + fl (u * of_int w))) \<and>
         Math_round (fl (of_int lo + fl (u * of_int w))) \<le> lo + w"
proof -
  have fl0: "fl 0 = 0"
    using ints [rule_format, of 0] by simp
  have flw: "fl (of_int w) = of_int w"
    using ints [rule_format, of w] w by simp
  have fllo: "fl (of_int lo) = of_int lo"
    using ints [rule_format, of lo] lo by simp
  have flhi: "fl (of_int lo + of_int w) = of_int lo + of_int w"
    using ints [rule_format, of "lo + w"] lo by simp
  have "0 \<le> u * of_int w" and "u * of_int w \<le> of_int w"
    using u w by (simp_all add: mult_left_le_one_le mult.commute)
  then have p: "0 \<le> fl (u * of_int w)" "fl (u * of_int w) \<le> of_int w"
    using mono [rule_format, of 0 "u * of_int w"] mono [rule_format, of "u * of_int w" "of_int w"]
      fl0 flw by simp_all
  have "of_int lo \<le> fl (of_int lo + fl (u * of_int w))"
    using mono [rule_format, of "of_int lo" "of_int lo + fl (u * of_int w)"] p(1) fllo by simp
  moreover have "fl (of_int lo + fl (u * of_int w)) \<le> of_int lo + of_int w"
    using mono [rule_format, of "of_int lo + fl (u * of_int w)" "of_int lo + of_int w"] p(2) flhi
    by simp
  ultimately show ?thesis
    unfolding Math_round_def by (simp add: le_floor_iff floor_le_iff)
qed

lemma Math_round_nearest: "\<bar>of_int (Math_round x) - x\<bar> \<le> 1 / 2"
  unfolding Math_round_def by linarith

lemma nearest47_mono: "\<forall>x y. x \<le> y \<longrightarrow> nearest47 x \<le> nearest47 y"
  by (auto simp: nearest47_def divide_right_mono intro!: floor_mono)

lemma nearest47_int: "\<forall>k::int. \<bar>k\<bar> \<le> 2 ^ 53 \<longrightarrow> nearest47 (of_int k) = of_int k"
proof (intro allI impI)
  fix k :: int
  have "(of_int k :: real) * 2 ^ 47 + 1 / 2 = of_int (k * 2 ^ 47) + 1 / 2"
    by simp
  then have "\<lfloor>(of_int k :: real) * 2 ^ 47 + 1 / 2\<rfloor> = k * 2 ^ 47"
    by (metis floor_add_int floor_divide_of_nat_eq add.commute floor_one_divide_eq_div_numeral
        add.right_neutral div_by_1 floor_of_int one_div_two_eq_zero)
  then show "nearest47 (of_int k) = of_int k"
    by (simp add: nearest47_def)
qed

lemma voice_classifier:
  assumes mono: "\<forall>x y. x \<le> y \<longrightarrow> fl x \<le> fl y"
      and ints: "\<forall>k::int. \<bar>k\<bar> \<le> 2 ^ 53 \<longrightarrow> fl (of_int k) = of_int k"
      and rand: "0 \<le> random 4 \<and> random 4 < 1" and long: "3 \<le> rt"
  shows "\<exists>v. produced (analyzeVoice fl rt random) = Some v \<and>
     (7 / 10 < random 3 \<longrightarrow>
        status v = Some Healthy \<and> confidence v = Math_round (fl (75 + fl (random 4 * 20))) \<and>
        75 \<le> confidence v \<and> confidence v \<le> 95) \<and>
     (35 / 100 < random 3 \<and> random 3 \<le> 7 / 10 \<longrightarrow>
        status v = Some NeedsConsultation \<and>
        confidence v = Math_round (fl (60 + fl (random 4 * 15))) \<and>
        60 \<le> confidence v \<and> confidence v \<le> 75) \<and>
     (random 3 \<le> 35 / 100 \<longrightarrow>
        status v = Some HighRisk \<and> confidence v = Math_round (fl (55 + fl (random 4 * 10))) \<and>
        55 \<le> confidence v \<and> confidence v \<le> 65)"
proof -
  have r: "0 \<le> random 4" "random 4 < 1"
    using rand by simp_all
  note b1 = rounded_bounds [where fl = fl and u = "random 4" and w = 20 and lo = 75, OF mono ints r, simplified]
  note b2 = rounded_bounds [where fl = fl and u = "random 4" and w = 15 and lo = 60, OF mono ints r, simplified]
  note b3 = rounded_bounds [where fl = fl and u = "random 4" and w = 10 and lo = 55, OF mono ints r, simplified]
  consider "7 / 10 < random 3" | "35 / 100 < random 3 \<and> random 3 \<le> 7 / 10" | "random 3 \<le> 35 / 100"
    by linarith
  then show ?thesis
  proof cases
    case 1
    with long b1 show ?thesis
      by (simp add: analyzeVoice_def produced_def voice_initial_def)
  next
    case 2
    with long b2 show ?thesis
      by (simp add: analyzeVoice_def produced_def voice_initial_def)
  next
    case 3
    with long b3 show ?thesis
      by (simp add: analyzeVoice_def produced_def voice_initial_def)
  qed
qed

lemma face_classifier:
  assumes mono: "\<forall>x y. x \<le> y \<longrightarrow> fl x \<le> fl y"
      and ints: "\<forall>k::int. \<bar>k\<bar> \<le> 2 ^ 53 \<longrightarrow> fl (of_int k) = of_int k"
      and rand: "0 \<le> random 1 \<and> random 1 < 1"
  shows "\<exists>f. produced_face (analyzeHealth fl predictions random) = Some f \<and>
     (7 / 10 < random 0 \<longrightarrow>
        status f = Some Healthy \<and> confidence f = Math_round (fl (75 + fl (random 1 * 20))) \<and>
        75 \<le> confidence f \<and> confidence f \<le> 95) \<and>
     (35 / 100 < random 0 \<and> random 0 \<le> 7 / 10 \<longrightarrow>
        status f = Some NeedsConsultation \<and>
        confidence f = Math_round (fl (60 + fl (random 1 * 15))) \<and>
        60 \<le> confidence f \<and> confidence f \<le> 75) \<and>
     (random 0 \<le> 35 / 100 \<longrightarrow>
        status f = Some HighRisk \<and> confidence f = Math_round (fl (55 + fl (random 1 * 10))) \<and>
        55 \<le> confidence f \<and> confidence f \<le> 65)"
proof -
  have r: "0 \<le> random 1" "random 1 < 1"
    using rand by simp_all
  note b1 = rounded_bounds [where fl = fl and u = "random 1" and w = 20 and lo = 75, OF mono ints r, simplified]
  note b2 = rounded_bounds [where fl = fl and u = "random 1" and w = 15 and lo = 60, OF mono ints r, simplified]
  note b3 = rounded_bounds [where fl = fl and u = "random 1" and w = 10 and lo = 55, OF mono ints r, simplified]
  consider "7 / 10 < random 0" | "35 / 100 < random 0 \<and> random 0 \<le> 7 / 10" | "random 0 \<le> 35 / 100"
    by linarith
  then show ?thesis
  proof cases
    case 1
    with b1 show ?thesis
      by (simp add: analyzeHealth_def produced_face_def face_initial_def)
  next
    case 2
    with b2 show ?thesis
      by (simp add: analyzeHealth_def produced_face_def face_initial_def)
  next
    case 3
    with b3 show ?thesis
      by (simp add: analyzeHealth_def produced_face_def face_initial_def)
  qed
qed

text \<open>
  C1: let \<open>fl\<close>, the rounding of the host's double arithmetic, be monotone and leave the
  integers up to \<open>2 ^ 53\<close> unchanged, and let every draw of \<^verbatim>\<open>Math.random()\<close> be in [0,1).
  Then the classifier of both modes maps the random factor \<open>r\<close> to \<^verbatim>\<open>healthy\<close> with
  confidence in [75,95] when \<open>r > 0.70\<close>, to \<^verbatim>\<open>needs-consultation\<close> with confidence in [60,75]
  when \<open>0.35 < r \<le> 0.70\<close>, and to \<^verbatim>\<open>high-risk\<close> with confidence in [55,65] when
  \<open>r \<le> 0.35\<close>. The confidence is \<^verbatim>\<open>Math.round\<close> of the double that the band computes (the
  product rounded, then the sum rounded), an integer at most one half away from that double.
  In voice mode \<open>r\<close> is the fourth draw and the confidence uses the fifth; in face mode they
  are the first and the second. The voice classifier is reached when the recording time read
  by \<^verbatim>\<open>analyzeVoice\<close> is at least 3.
\<close>

theorem classifier_bands:
  assumes mono: "\<forall>x y. x \<le> y \<longrightarrow> fl x \<le> fl y"
      and ints: "\<forall>k::int. \<bar>k\<bar> \<le> 2 ^ 53 \<longrightarrow> fl (of_int k) = of_int k"
      and voice_draws: "\<forall>i. 0 \<le> random i \<and> random i < 1"
      and face_draws: "\<forall>i. 0 \<le> random' i \<and> random' i < 1"
      and long: "3 \<le> rt"
  shows "\<exists>v f.
     produced (analyzeVoice fl rt random) = Some v \<and>
     (7 / 10 < random 3 \<longrightarrow>
        status v = Some Healthy \<and> confidence v = Math_round (fl (75 + fl (random 4 * 20))) \<and>
        75 \<le> confidence v \<and> confidence v \<le> 95) \<and>
     (35 / 100 < random 3 \<and> random 3 \<le> 7 / 10 \<longrightarrow>
        status v = Some NeedsConsultation \<and>
        confidence v = Math_round (fl (60 + fl (random 4 * 15))) \<and>
        60 \<le> confidence v \<and> confidence v \<le> 75) \<and>
     (random 3 \<le> 35 / 100 \<longrightarrow>
        status v = Some HighRisk \<and> confidence v = Math_round (fl (55 + fl (random 4 * 10))) \<and>
        55 \<le> confidence v \<and> confidence v \<le> 65) \<and>
     produced_face (analyzeHealth fl predictions random') = Some f \<and>
     (7 / 10 < random' 0 \<longrightarrow>
        status f = Some Healthy \<and> confidence f = Math_round (fl (75 + fl (random' 1 * 20))) \<and>
        75 \<le> confidence f \<and> confidence f \<le> 95) \<and>
     (35 / 100 < random' 0 \<and> random' 0 \<le> 7 / 10 \<longrightarrow>
        status f = Some NeedsConsultation \<and>
        confidence f = Math_round (fl (60 + fl (random' 1 * 15))) \<and>
        60 \<le> confidence f \<and> confidence f \<le> 75) \<and>
     (random' 0 \<le> 35 / 100 \<longrightarrow>
        status f = Some HighRisk \<and> confidence f = Math_round (fl (55 + fl (random' 1 * 10))) \<and>
        55 \<le> confidence f \<and> confidence f \<le> 65) \<and>
     (\<forall>x. \<bar>of_int (Math_round x) - x\<bar> \<le> 1 / 2)"
proof -
  have a: "0 \<le> random 4 \<and> random 4 < 1"
    using voice_draws by blast
  have b: "0 \<le> random' 1 \<and> random' 1 < 1"
    using face_draws by blast
  show ?thesis
    using voice_classifier [where fl = fl and random = random and rt = rt, OF mono ints a long]
      face_classifier [where fl = fl and random = random' and predictions = predictions,
        OF mono ints b]
      Math_round_nearest
    apply (elim exE)
    subgoal for v f
      by (intro exI [of _ v] exI [of _ f]) blast
    done
qed

theorem classifier_bands_witness:
  "(\<forall>i. 0 \<le> pinned (7 / 10) i \<and> pinned (7 / 10) i < 1) \<and>
   (\<forall>i. 0 \<le> sample_draws i \<and> sample_draws i < 1) \<and>
   (3::nat) \<le> 10 \<and>
   map_option status (produced (analyzeVoice nearest47 10 (pinned (7 / 10)))) =
     Some (Some NeedsConsultation) \<and>
   map_option status (produced_face (analyzeHealth nearest47 [sample_face] sample_draws)) =
     Some (Some HighRisk) \<and>
   map_option confidence (produced_face (analyzeHealth nearest47 [sample_face] sample_draws)) =
     Some 56"
proof -
  have p: "\<forall>i. 0 \<le> pinned (7 / 10) i \<and> pinned (7 / 10) i < 1"
    by (simp add: pinned_def)
  have d: "\<forall>i. 0 \<le> sample_draws i \<and> sample_draws i < 1"
    by (simp add: sample_draws_def)
  have l: "(3::nat) \<le> 10"
    by simp
  have c: "Math_round (nearest47 (55 + nearest47 (sample_draws 1 * 10))) = 56"
    by (simp add: sample_draws_def nearest47_def Math_round_def)
  have r: "sample_draws 0 \<le> 35 / 100" "pinned (7 / 10) 3 \<le> 7 / 10" "35 / 100 < pinned (7 / 10) 3"
    by (simp_all add: sample_draws_def pinned_def)
  from classifier_bands [where fl = nearest47 and random = "pinned (7 / 10)"
      and random' = sample_draws and rt = 10 and predictions = "[sample_face]",
      OF nearest47_mono nearest47_int p d l]
  obtain v f where
    "produced (analyzeVoice nearest47 10 (pinned (7 / 10))) = Some v"
    "status v = Some NeedsConsultation"
    "produced_face (analyzeHealth nearest47 [sample_face] sample_draws) = Some f"
    "status f = Some HighRisk"
    "confidence f = Math_round (nearest47 (55 + nearest47 (sample_draws 1 * 10)))"
    using r by blast
  with p d l c show ?thesis
    by simp
qed

section \<open>The analysis stage of voice mode\<close>

lemma untilTimeout_TrackStop:
  "untilTimeout (map TrackStop ts @ as) = map TrackStop ts @ untilTimeout as"
  by (induction ts) simp_all

lemma afterTimeout_TrackStop: "afterTimeout (map TrackStop ts @ as) = afterTimeout as"
  by (induction ts) simp_all

text \<open>
  What \<^verbatim>\<open>analyzeVoice\<close> does by itself: every run starts by raising the busy flag, clearing
  the error and waiting 2000 ms, so nothing is published before the delay; and when the
  recording time it reads is below 3, the run then sets the recording-too-short error, lowers
  the busy flag and resets the recording time to 0, publishing no result, whatever the random
  draws. So does the first recording on a freshly mounted component.
\<close>

lemma short_recording_rejected:
  "take 3 (analyzeVoice fl rt random) = [SetIsAnalyzing True, SetError None, Timeout 2000] \<and>
   (rt < 3 \<longrightarrow>
      analyzeVoice fl rt random =
        [SetIsAnalyzing True, SetError None, Timeout 2000,
         SetError (Some ''Recording too short. Please speak for at least 3 seconds.''),
         SetIsAnalyzing False, SetRecordingTime 0] \<and>
      error (run (analyzeVoice fl rt random) s) =
        Some ''Recording too short. Please speak for at least 3 seconds.'' \<and>
      recordingTime (run (analyzeVoice fl rt random) s) = 0 \<and>
      analysisResult (run (analyzeVoice fl rt random) s) = analysisResult s \<and>
      \<not> isAnalyzing (run (analyzeVoice fl rt random) s) \<and>
      produced (analyzeVoice fl rt random) = None)"
  by (simp add: analyzeVoice_def produced_def voice_initial_def)

text \<open>
  C2 says that every voice analysis of a recording shorter than 3 seconds fails with the
  recording-too-short error and publishes no result. The duration that \<^verbatim>\<open>analyzeVoice\<close>
  compares with 3 is the \<^verbatim>\<open>recordingTime\<close> of the render in which the start button was
  pressed. \<^verbatim>\<open>stopRecording\<close> leaves the counter at the length of the recording, and the
  start button is enabled until the recorder's stop event begins the analysis: a recording
  started in between is analysed with the length of the one before. After a recording of 10
  seconds, a second recording of any length \<open>n\<close> (0, 1 or 2 seconds too) started this way ends
  with a published result whose duration is 10 and with no error.
\<close>

theorem restart_publishes_stale_duration:
  "map_option (duration \<circ> metrics)
     (analysisResult (restartInWindow fl 10 n tracks timerId data frameId random random')) =
     Some 10 \<and>
   error (restartInWindow fl 10 n tracks timerId data frameId random random') = None"
  by (simp add: restartInWindow_def clickStart_def clickStop_def startRecording_def
      stopRecording_def monitorAudioLevel_def updateLevel_def stopEvent_def onstop_def
      analyzeVoice_def seconds_eq voice_initial_def truthy_def run_append run_TrackStop
      untilTimeout_TrackStop afterTimeout_TrackStop Let_def split: prod.splits)

section \<open>Reset\<close>

text \<open>
  C9: from any state, \<^verbatim>\<open>resetAnalysis\<close> leaves the result null and the error null; in voice
  mode the recording time and the audio level are back at their initial values, and in face
  mode nothing remains drawn on the canvas.
\<close>

theorem reset_clears:
  "analysisResult (run VoiceAnalysis_resetAnalysis s) = None \<and>
   error (run VoiceAnalysis_resetAnalysis s) = None \<and>
   recordingTime (run VoiceAnalysis_resetAnalysis s) = recordingTime voice_initial \<and>
   audioLevel (run VoiceAnalysis_resetAnalysis s) = audioLevel voice_initial \<and>
   analysisResult (run_face (FaceScan_resetAnalysis t) t) = None \<and>
   error (run_face (FaceScan_resetAnalysis t) t) = None \<and>
   (\<forall>c. canvasRef (run_face (FaceScan_resetAnalysis t) t) = Some c \<and> context2d c \<longrightarrow> drawn c = [])"
  by (auto simp: VoiceAnalysis_resetAnalysis_def FaceScan_resetAnalysis_def voice_initial_def
      on_canvas_def split: option.splits)

theorem reset_clears_witness:
  "map_option context2d (canvasRef (run_face (FaceScan_resetAnalysis
      (run_face (captureAndAnalyze nearest47 (Faces [sample_face]) (pinned (9 / 10)) face_live) face_live))
      (run_face (captureAndAnalyze nearest47 (Faces [sample_face]) (pinned (9 / 10)) face_live) face_live))) =
     Some True \<and>
   map_option drawn (canvasRef
      (run_face (captureAndAnalyze nearest47 (Faces [sample_face]) (pinned (9 / 10)) face_live) face_live)) =
     Some [Bitmap VideoFrame, boxOf nearest47 sample_face] \<and>
   map_option drawn (canvasRef (run_face (FaceScan_resetAnalysis
      (run_face (captureAndAnalyze nearest47 (Faces [sample_face]) (pinned (9 / 10)) face_live) face_live))
      (run_face (captureAndAnalyze nearest47 (Faces [sample_face]) (pinned (9 / 10)) face_live) face_live))) =
     Some []"
  using reset_clears [where s = voice_initial and t =
      "run_face (captureAndAnalyze nearest47 (Faces [sample_face]) (pinned (9 / 10)) face_live) face_live"]
  by (simp add: captureAndAnalyze_def analyzeHealth_def stopCamera_def andThen_def
      drawDetectionBox_def FaceScan_resetAnalysis_def face_live_def sample_face_def boxOf_def
      pinned_def on_canvas_def on_video_def Let_def)

section \<open>The detector-confidence proxy\<close>

text \<open>
  C10: the value that \<^verbatim>\<open>analyzeHealth\<close> binds to \<^verbatim>\<open>confidence\<close> is 0.95 whenever the first
  detection's \<^verbatim>\<open>probability\<close> is missing or equal to 0.
\<close>

theorem confidence_default:
  assumes "probability p = None \<or> probability p = Some 0"
  shows "detectionConfidence (p # ps) = 95 / 100"
  using assms by (auto simp: detectionConfidence_def)

theorem confidence_default_witness:
  "probability zero_face = Some 0 \<and> detectionConfidence [zero_face] = 95 / 100"
  using confidence_default [of zero_face "[]"] by (simp add: zero_face_def)


section \<open>Face capture\<close>

lemma run_boxes:
  "\<exists>cv. run_face (concat (map (drawDetectionBox fl) ps)) s = s\<lparr>canvasRef := cv\<rparr> \<and>
        map_option drawn cv = map_option (\<lambda>c. drawn c @ map (boxOf fl) ps) (canvasRef s)"
proof (induction ps arbitrary: s)
  case Nil
  have "s = s\<lparr>canvasRef := canvasRef s\<rparr>" by simp
  then show ?case by (auto simp: option.map_ident intro!: exI [of _ "canvasRef s"])
next
  case (Cons p ps)
  let ?s1 = "run_face (drawDetectionBox fl p) s"
  from Cons.IH [of ?s1] obtain cv where
    cv: "run_face (concat (map (drawDetectionBox fl) ps)) ?s1 = ?s1\<lparr>canvasRef := cv\<rparr>"
      "map_option drawn cv = map_option (\<lambda>c. drawn c @ map (boxOf fl) ps) (canvasRef ?s1)"
    by blast
  have s1: "?s1\<lparr>canvasRef := cv\<rparr> = s\<lparr>canvasRef := cv\<rparr>"
    by (simp add: drawDetectionBox_def on_canvas_def Let_def)
  have d: "map_option (\<lambda>c. drawn c @ map (boxOf fl) ps) (canvasRef ?s1) =
           map_option (\<lambda>c. drawn c @ map (boxOf fl) (p # ps)) (canvasRef s)"
    by (cases "canvasRef s") (simp_all add: drawDetectionBox_def on_canvas_def Let_def boxOf_def)
  show ?case
    using cv s1 d by (intro exI [of _ cv]) (simp add: run_face_append)
qed

lemma analyzeHealth_actions:
  "\<exists>res. analyzeHealth fl ps random = [Face_Timeout 2000, Face_SetAnalysisResult (Some res)]"
  by (simp add: analyzeHealth_def Let_def split: prod.splits)

lemma boxes_frame:
  "streamRef (run_face (concat (map (drawDetectionBox fl) ps)) t) = streamRef t"
  "videoRef (run_face (concat (map (drawDetectionBox fl) ps)) t) = videoRef t"
  "isCameraActive (run_face (concat (map (drawDetectionBox fl) ps)) t) = isCameraActive t"
  "analysisResult (run_face (concat (map (drawDetectionBox fl) ps)) t) = analysisResult t"
  "isAnalyzing (run_face (concat (map (drawDetectionBox fl) ps)) t) = isAnalyzing t"
  "map_option drawn (canvasRef (run_face (concat (map (drawDetectionBox fl) ps)) t)) =
     map_option (\<lambda>c. drawn c @ map (boxOf fl) ps) (canvasRef t)"
proof -
  obtain cv where cv: "run_face (concat (map (drawDetectionBox fl) ps)) t = t\<lparr>canvasRef := cv\<rparr>"
      "map_option drawn cv = map_option (\<lambda>c. drawn c @ map (boxOf fl) ps) (canvasRef t)"
    using run_boxes [where ps = ps and s = t and fl = fl] by blast
  show "streamRef (run_face (concat (map (drawDetectionBox fl) ps)) t) = streamRef t"
    "videoRef (run_face (concat (map (drawDetectionBox fl) ps)) t) = videoRef t"
    "isCameraActive (run_face (concat (map (drawDetectionBox fl) ps)) t) = isCameraActive t"
    "analysisResult (run_face (concat (map (drawDetectionBox fl) ps)) t) = analysisResult t"
    "isAnalyzing (run_face (concat (map (drawDetectionBox fl) ps)) t) = isAnalyzing t"
    "map_option drawn (canvasRef (run_face (concat (map (drawDetectionBox fl) ps)) t)) =
       map_option (\<lambda>c. drawn c @ map (boxOf fl) ps) (canvasRef t)"
    unfolding cv(1) using cv(2) by simp_all
qed

lemma analysis_frame:
  "streamRef (run_face (analyzeHealth fl ps random) t) = streamRef t"
  "videoRef (run_face (analyzeHealth fl ps random) t) = videoRef t"
  "isCameraActive (run_face (analyzeHealth fl ps random) t) = isCameraActive t"
  "canvasRef (run_face (analyzeHealth fl ps random) t) = canvasRef t"
  "isAnalyzing (run_face (analyzeHealth fl ps random) t) = isAnalyzing t"
  "analysisResult (run_face (analyzeHealth fl ps random) t) = produced_face (analyzeHealth fl ps random)"
  "produced_face (analyzeHealth fl ps random) \<noteq> None"
proof -
  obtain res where res: "analyzeHealth fl ps random = [Face_Timeout 2000, Face_SetAnalysisResult (Some res)]"
    using analyzeHealth_actions by blast
  show "streamRef (run_face (analyzeHealth fl ps random) t) = streamRef t"
    "videoRef (run_face (analyzeHealth fl ps random) t) = videoRef t"
    "isCameraActive (run_face (analyzeHealth fl ps random) t) = isCameraActive t"
    "canvasRef (run_face (analyzeHealth fl ps random) t) = canvasRef t"
    "isAnalyzing (run_face (analyzeHealth fl ps random) t) = isAnalyzing t"
    "analysisResult (run_face (analyzeHealth fl ps random) t) = produced_face (analyzeHealth fl ps random)"
    "produced_face (analyzeHealth fl ps random) \<noteq> None"
    unfolding res by (simp_all add: produced_face_def)
qed

lemma run_stopCamera:
  "run_face (stopCamera s) t =
     t\<lparr>streamRef := (case streamRef s of None \<Rightarrow> streamRef t | Some _ \<Rightarrow> None),
       videoRef := (if videoRef s \<noteq> None
                    then map_option (\<lambda>v. v\<lparr>srcObject := None\<rparr>) (videoRef t) else videoRef t),
       isCameraActive := False\<rparr>"
  by (cases "streamRef s")
     (simp_all add: stopCamera_def run_face_append run_face_TrackStop on_video_def)

text \<open>
  C3: when the detector returns no region, both face entry points (camera capture and
  upload, each past its guards: canvas with a 2d context, model loaded, and for the camera a
  mounted video element) perform exactly the listed actions: they end by setting the
  no-face-detected message and lowering the busy flag, perform no action of
  \<^verbatim>\<open>analyzeHealth\<close>, leave the published result as it was, and leave the camera flag, the
  stream and the video element untouched.
\<close>

theorem no_face_detected:
  assumes "canvasRef s = Some c" and "context2d c" and "model s = Some m"
  shows "(\<forall>v. videoRef s = Some v \<longrightarrow>
            captureAndAnalyze fl (Faces []) random s =
              [Face_SetIsAnalyzing True, Face_SetError None,
               SetCanvasWidth (videoWidth v), SetCanvasHeight (videoHeight v),
               DrawImage VideoFrame, EstimateFaces,
               Face_SetError (Some ''No face detected. Please ensure your face is clearly visible.''),
               Face_SetIsAnalyzing False] \<and>
            error (run_face (captureAndAnalyze fl (Faces []) random s) s) =
              Some ''No face detected. Please ensure your face is clearly visible.'') \<and>
         handleFileUpload fl (Picture w h) (Faces []) random s =
           [Face_SetIsAnalyzing True, Face_SetError None, CreateObjectURL,
            SetCanvasWidth w, SetCanvasHeight h,
            DrawImage UploadedImage, EstimateFaces,
            Face_SetError (Some ''No face detected in the image. Please upload a clear face photo.''),
            Face_SetIsAnalyzing False] \<and>
         error (run_face (handleFileUpload fl (Picture w h) (Faces []) random s) s) =
           Some ''No face detected in the image. Please upload a clear face photo.'' \<and>
         set (captureAndAnalyze fl (Faces []) random s) \<inter> set (analyzeHealth fl ps random') = {} \<and>
         set (handleFileUpload fl (Picture w h) (Faces []) random s) \<inter> set (analyzeHealth fl ps random') = {} \<and>
         analysisResult (run_face (captureAndAnalyze fl (Faces []) random s) s) = analysisResult s \<and>
         analysisResult (run_face (handleFileUpload fl (Picture w h) (Faces []) random s) s) =
           analysisResult s \<and>
         isCameraActive (run_face (captureAndAnalyze fl (Faces []) random s) s) = isCameraActive s \<and>
         streamRef (run_face (captureAndAnalyze fl (Faces []) random s) s) = streamRef s \<and>
         videoRef (run_face (captureAndAnalyze fl (Faces []) random s) s) = videoRef s \<and>
         isCameraActive (run_face (handleFileUpload fl (Picture w h) (Faces []) random s) s) =
           isCameraActive s \<and>
         streamRef (run_face (handleFileUpload fl (Picture w h) (Faces []) random s) s) = streamRef s \<and>
         videoRef (run_face (handleFileUpload fl (Picture w h) (Faces []) random s) s) = videoRef s"
proof -
  obtain res where res: "analyzeHealth fl ps random' = [Face_Timeout 2000, Face_SetAnalysisResult (Some res)]"
    using analyzeHealth_actions by blast
  show ?thesis
    using assms res
    by (cases "videoRef s")
       (simp_all add: captureAndAnalyze_def handleFileUpload_def on_canvas_def Let_def)
qed

theorem no_face_detected_witness:
  "canvasRef face_live \<noteq> None \<and> model face_live = Some BlazeFaceModel \<and>
   error (run_face (captureAndAnalyze nearest47 (Faces []) (pinned (9 / 10)) face_live) face_live) =
     Some ''No face detected. Please ensure your face is clearly visible.'' \<and>
   isCameraActive (run_face (captureAndAnalyze nearest47 (Faces []) (pinned (9 / 10)) face_live) face_live)"
proof -
  let ?c = "\<lparr>width = 300, height = 150, context2d = True, strokeStyle = ''#000000'',
             lineWidth = 1, drawn = []\<rparr>"
  let ?v = "\<lparr>srcObject = Some [0], videoWidth = 640, videoHeight = 480\<rparr>"
  have c: "canvasRef face_live = Some ?c" and x: "context2d ?c"
    and m: "model face_live = Some BlazeFaceModel" and v: "videoRef face_live = Some ?v"
    and a: "isCameraActive face_live"
    by (simp_all add: face_live_def)
  from no_face_detected [OF c x m, where fl = nearest47 and random = "pinned (9 / 10)" and w = 30
      and h = 40 and ps = "[sample_face]" and random' = "pinned (9 / 10)"] c m v a
  show ?thesis
    by (simp add: on_canvas_def)
qed

text \<open>
  C7: when the detector returns at least one region, a camera capture (past its guards) draws
  each region's box on the snapshot, then runs the analysis, then stops the camera, in this
  order: afterwards the canvas holds the frame and one box per region, the result of the
  analysis is published, the camera flag is false, the stream is released, and the capture
  button is no longer available until the session is started again.
\<close>

theorem capture_releases_camera:
  assumes "videoRef s = Some v" and "canvasRef s = Some c" and "context2d c"
      and "model s = Some m" and "predictions \<noteq> []"
  shows "captureAndAnalyze fl (Faces predictions) random s =
           [Face_SetIsAnalyzing True, Face_SetError None,
            SetCanvasWidth (videoWidth v), SetCanvasHeight (videoHeight v),
            DrawImage VideoFrame, EstimateFaces] @
           concat (map (drawDetectionBox fl) predictions) @
           analyzeHealth fl predictions random @
           stopCamera s @
           [Face_SetIsAnalyzing False] \<and>
         map_option drawn (canvasRef (run_face (captureAndAnalyze fl (Faces predictions) random s) s)) =
           Some (Bitmap VideoFrame # map (boxOf fl) predictions) \<and>
         analysisResult (run_face (captureAndAnalyze fl (Faces predictions) random s) s) =
           produced_face (analyzeHealth fl predictions random) \<and>
         produced_face (analyzeHealth fl predictions random) \<noteq> None \<and>
         \<not> isCameraActive (run_face (captureAndAnalyze fl (Faces predictions) random s) s) \<and>
         streamRef (run_face (captureAndAnalyze fl (Faces predictions) random s) s) = None \<and>
         \<not> captureEnabled (run_face (captureAndAnalyze fl (Faces predictions) random s) s)"
proof -
  let ?first = "[Face_SetIsAnalyzing True, Face_SetError None,
            SetCanvasWidth (videoWidth v), SetCanvasHeight (videoHeight v),
            DrawImage VideoFrame, EstimateFaces] @
           concat (map (drawDetectionBox fl) predictions) @
           analyzeHealth fl predictions random"
  have stop: "stopCamera (run_face ?first s) = stopCamera s"
    by (simp add: stopCamera_def run_face_append boxes_frame analysis_frame on_canvas_def)
  have acts: "captureAndAnalyze fl (Faces predictions) random s =
           ?first @ stopCamera s @ [Face_SetIsAnalyzing False]"
    using assms stop by (simp add: captureAndAnalyze_def andThen_def Let_def)
  have canvas: "map_option drawn (canvasRef (run_face ?first s)) =
      Some (Bitmap VideoFrame # map (boxOf fl) predictions)"
    using assms by (simp add: run_face_append boxes_frame analysis_frame on_canvas_def)
  have video: "videoRef (run_face ?first s) = Some v"
    using assms by (simp add: run_face_append boxes_frame analysis_frame on_canvas_def)
  have result: "analysisResult (run_face ?first s) = produced_face (analyzeHealth fl predictions random)"
    by (simp add: run_face_append analysis_frame)
  have final: "run_face (captureAndAnalyze fl (Faces predictions) random s) s =
      (run_face (stopCamera s) (run_face ?first s))\<lparr>isAnalyzing := False\<rparr>"
    unfolding acts by (simp add: run_face_append)
  show ?thesis
    unfolding final run_stopCamera
    using acts canvas video result assms
      analysis_frame(7) [where fl = fl and ps = predictions and random = random]
    by (simp add: captureEnabled_def run_face_append boxes_frame analysis_frame on_canvas_def
        split: option.split)
qed

theorem capture_releases_camera_witness:
  "videoRef face_live \<noteq> None \<and> canvasRef face_live \<noteq> None \<and> model face_live \<noteq> None \<and>
   [sample_face] \<noteq> [] \<and>
   streamRef face_live = Some [0] \<and> isCameraActive face_live \<and>
   streamRef (run_face (captureAndAnalyze nearest47 (Faces [sample_face]) (pinned (9 / 10)) face_live) face_live) = None \<and>
   \<not> isCameraActive (run_face (captureAndAnalyze nearest47 (Faces [sample_face]) (pinned (9 / 10)) face_live) face_live) \<and>
   Face_TrackStop 0 \<in> set (captureAndAnalyze nearest47 (Faces [sample_face]) (pinned (9 / 10)) face_live)"
proof -
  let ?c = "\<lparr>width = 300, height = 150, context2d = True, strokeStyle = ''#000000'',
             lineWidth = 1, drawn = []\<rparr>"
  let ?v = "\<lparr>srcObject = Some [0], videoWidth = 640, videoHeight = 480\<rparr>"
  have c: "canvasRef face_live = Some ?c" and x: "context2d ?c"
    and m: "model face_live = Some BlazeFaceModel" and v: "videoRef face_live = Some ?v"
    and a: "isCameraActive face_live" and st: "streamRef face_live = Some [0]"
    and p: "[sample_face] \<noteq> []"
    by (simp_all add: face_live_def)
  have stop: "Face_TrackStop 0 \<in> set (stopCamera face_live)"
    by (simp add: stopCamera_def st)
  from capture_releases_camera [OF v c x m p, where fl = nearest47 and random = "pinned (9 / 10)"]
    c m v a st stop
  show ?thesis
    by (simp add: run_face_append boxes_frame analysis_frame run_stopCamera on_canvas_def)
qed

section \<open>The video element across renders\<close>

text \<open>
  Once a result is published or the camera flag is false, the next render detaches the video
  element; and \<^verbatim>\<open>startCamera\<close> without a video element acquires the stream but neither
  stores it nor raises the camera flag.
\<close>

lemma render_detaches_video:
  "analysisResult s \<noteq> None \<or> \<not> isCameraActive s \<Longrightarrow> videoRef (render_face s) = None"
  by (auto simp: render_face_def)

lemma startCamera_without_video:
  "videoRef s = None \<Longrightarrow>
     isCameraActive (run_face (startCamera access s) s) = isCameraActive s \<and>
     streamRef (run_face (startCamera access s) s) = streamRef s \<and>
     videoRef (run_face (startCamera access s) s) = None"
  by (cases access) (simp_all add: startCamera_def)

section \<open>Stopping a session\<close>

text \<open>
  C8: stopping when no session is active does nothing: \<^verbatim>\<open>stopRecording\<close> of a render that is
  not recording (or without a recorder) performs no action, and \<^verbatim>\<open>stopCamera\<close> with no
  stream, the camera flag false and no stream attached to the video element leaves the state
  as it is and stops no track. Stopping twice is the same as stopping once: after
  \<^verbatim>\<open>stopRecording\<close> the next render's \<^verbatim>\<open>stopRecording\<close> performs no action, and a second
  \<^verbatim>\<open>stopCamera\<close> leaves the state of the first.
\<close>

theorem stop_idempotent:
  "(\<not> isRecording s \<or> mediaRecorderRef s = None \<longrightarrow>
      stopRecording (isRecording s) s = [] \<and> run (stopRecording (isRecording s) s) s = s) \<and>
   stopRecording (isRecording (run (stopRecording (isRecording s) s) s))
     (run (stopRecording (isRecording s) s) s) = [] \<and>
   (streamRef t = None \<and> \<not> isCameraActive t \<and> (\<forall>v. videoRef t = Some v \<longrightarrow> srcObject v = None) \<longrightarrow>
      run_face (stopCamera t) t = t \<and> (\<forall>k. Face_TrackStop k \<notin> set (stopCamera t))) \<and>
   run (stopRecording b (run (stopRecording b s) s)) (run (stopRecording b s) s) =
     run (stopRecording b s) s \<and>
   run_face (stopCamera (run_face (stopCamera t) t)) (run_face (stopCamera t) t) =
     run_face (stopCamera t) t"
proof -
  have voice3: "run (stopRecording b (run (stopRecording b s) s)) (run (stopRecording b s) s) =
     run (stopRecording b s) s"
    by (simp add: stopRecording_def run_append)
  have voice1: "\<not> isRecording s \<or> mediaRecorderRef s = None \<Longrightarrow> stopRecording (isRecording s) s = []"
    by (auto simp: stopRecording_def)
  have voice2: "stopRecording (isRecording (run (stopRecording (isRecording s) s) s))
     (run (stopRecording (isRecording s) s) s) = []"
    by (simp add: stopRecording_def run_append)
  have face1: "run_face (stopCamera t) t = t"
    if "streamRef t = None" "\<not> isCameraActive t" "\<forall>v. videoRef t = Some v \<longrightarrow> srcObject v = None"
    using that by (cases t; cases "videoRef t") (auto simp: run_stopCamera)
  have face1': "Face_TrackStop k \<notin> set (stopCamera t)" if "streamRef t = None" for k
    using that by (simp add: stopCamera_def)
  have face2: "run_face (stopCamera (run_face (stopCamera t) t)) (run_face (stopCamera t) t) =
     run_face (stopCamera t) t"
    by (cases "videoRef t"; cases "streamRef t") (simp_all add: run_stopCamera)
  from voice1 voice2 voice3 face1 face1' face2 show ?thesis
    by simp
qed

theorem stop_idempotent_witness:
  "\<not> isRecording voice_initial \<and>
   stopRecording (isRecording voice_initial) voice_initial = [] \<and>
   streamRef (run_face (stopCamera face_live) face_live) = None \<and>
   \<not> isCameraActive (run_face (stopCamera face_live) face_live) \<and>
   map_option srcObject (videoRef (run_face (stopCamera face_live) face_live)) = Some None \<and>
   run_face (stopCamera (run_face (stopCamera face_live) face_live))
     (run_face (stopCamera face_live) face_live) = run_face (stopCamera face_live) face_live"
  using stop_idempotent [of voice_initial "run_face (stopCamera face_live) face_live" True]
  by (simp add: voice_initial_def face_live_def run_stopCamera)

section \<open>What \<^verbatim>\<open>analyzeVoice\<close> reports as metrics\<close>

text \<open>
  When the recording time that \<^verbatim>\<open>analyzeVoice\<close> reads is at least 3, the metrics it publishes
  are within the synthesized ranges, and the duration is that recording time.
\<close>

lemma analyzeVoice_metrics:
  assumes mono: "\<forall>x y. x \<le> y \<longrightarrow> fl x \<le> fl y"
      and ints: "\<forall>k::int. \<bar>k\<bar> \<le> 2 ^ 53 \<longrightarrow> fl (of_int k) = of_int k"
      and draws: "\<forall>i. 0 \<le> random i \<and> random i < 1" and long: "3 \<le> rt"
  shows "\<exists>v. produced (analyzeVoice fl rt random) = Some v \<and>
           100 \<le> pitch (metrics v) \<and> pitch (metrics v) \<le> 200 \<and>
           50 \<le> volume (metrics v) \<and> volume (metrics v) \<le> 90 \<and>
           70 \<le> clarity (metrics v) \<and> clarity (metrics v) \<le> 95 \<and>
           duration (metrics v) = rt"
proof -
  have d: "0 \<le> random 0" "random 0 < 1" "0 \<le> random 1" "random 1 < 1" "0 \<le> random 2" "random 2 < 1"
    using draws by blast+
  note b1 = rounded_bounds [where fl = fl and u = "random 0" and w = 100 and lo = 100, OF mono ints d(1,2), simplified]
  note b2 = rounded_bounds [where fl = fl and u = "random 1" and w = 40 and lo = 50, OF mono ints d(3,4), simplified]
  note b3 = rounded_bounds [where fl = fl and u = "random 2" and w = 25 and lo = 70, OF mono ints d(5,6), simplified]
  show ?thesis
    using long b1 b2 b3
    by (simp add: analyzeVoice_def produced_def voice_initial_def Let_def split: prod.splits)
qed

end
